theory Spec2Isabelle
  imports Complex_Main "HOL-Library.Word"
begin

section \<open>The sentiment analyzer component: data model\<close>

text \<open>
  The development embeds \<^verbatim>\<open>src/components/sentiment-analyzer.tsx\<close>: the six
  \<^verbatim>\<open>useState\<close> slots of the component, its two asynchronous operations
  \<^verbatim>\<open>fetchHistory\<close> and \<^verbatim>\<open>handleAnalyze\<close>, and the pure helpers
  \<^verbatim>\<open>getScoreColor\<close> and \<^verbatim>\<open>truncateText\<close>.
\<close>

subsection \<open>Strings\<close>

text \<open>
  A JavaScript string is a sequence of 16-bit code units; \<^verbatim>\<open>length\<close>, \<^verbatim>\<open>slice\<close>
  and \<^verbatim>\<open>trim\<close> all work on code units. String literals of the source are ASCII
  and are written through \<open>of_ascii\<close>.
\<close>

type_synonym code_unit = "16 word"
type_synonym jsstring = "code_unit list"

definition of_ascii :: "string \<Rightarrow> jsstring" where
  "of_ascii s = map of_char s"

text \<open>
  \<^verbatim>\<open>String.prototype.trim\<close> strips the code points of the ECMAScript productions
  WhiteSpace and LineTerminator from both ends: TAB, LF, VT, FF, CR, SP, NBSP, U+1680,
  U+2000 to U+200A, U+2028, U+2029, U+202F, U+205F, U+3000 and U+FEFF. All of them are
  single code units.
\<close>

definition is_white_space :: "code_unit \<Rightarrow> bool" where
  "is_white_space c =
     (c = 0x0009 \<or> c = 0x000A \<or> c = 0x000B \<or> c = 0x000C \<or> c = 0x000D \<or> c = 0x0020 \<or>
      c = 0x00A0 \<or> c = 0x1680 \<or> (0x2000 \<le> c \<and> c \<le> 0x200A) \<or> c = 0x2028 \<or> c = 0x2029 \<or>
      c = 0x202F \<or> c = 0x205F \<or> c = 0x3000 \<or> c = 0xFEFF)"

definition trim :: "jsstring \<Rightarrow> jsstring" where
  "trim s = rev (dropWhile is_white_space (rev (dropWhile is_white_space s)))"

subsection \<open>Numbers\<close>

text \<open>
  A JavaScript \<^verbatim>\<open>number\<close> is an IEEE-754 binary64 value: a finite value, which is a
  rational number, one of the two infinities, or NaN. The relational operators compare
  finite values exactly and are false as soon as one side is NaN. \<open>Finite\<close> admits every
  rational, a superset of the finite binary64 values.
\<close>

datatype number = NaN | NegInfinity | Finite rat | PosInfinity

fun js_less :: "number \<Rightarrow> number \<Rightarrow> bool" where
  "js_less NaN _ = False"
| "js_less _ NaN = False"
| "js_less NegInfinity NegInfinity = False"
| "js_less NegInfinity _ = True"
| "js_less (Finite a) (Finite b) = (a < b)"
| "js_less (Finite a) PosInfinity = True"
| "js_less (Finite a) NegInfinity = False"
| "js_less PosInfinity _ = False"

definition js_greater :: "number \<Rightarrow> number \<Rightarrow> bool" where
  "js_greater a b = js_less b a"

fun js_neg :: "number \<Rightarrow> number" where
  "js_neg NaN = NaN"
| "js_neg NegInfinity = PosInfinity"
| "js_neg (Finite a) = Finite (- a)"
| "js_neg PosInfinity = NegInfinity"

text \<open>
  The literal \<^verbatim>\<open>0.1\<close> denotes the binary64 value nearest to one tenth,
  \<open>7205759403792794 / 2 ^ 56\<close>, which lies a little above one tenth.
\<close>

definition lit_0_1 :: number where
  "lit_0_1 = Finite (7205759403792794 / 2 ^ 56)"

subsection \<open>Records of the component\<close>

datatype sentiment = Positive | Negative | Neutral

text \<open>
  A \<^verbatim>\<open>Date\<close> holds a time value in milliseconds since the epoch, or NaN, in which
  case it is the Invalid Date.
\<close>

datatype date = Date int | Invalid_Date

text \<open>
  \<^verbatim>\<open>interface AnalysisResult\<close>; the fields are \<^verbatim>\<open>id?\<close>, \<^verbatim>\<open>text\<close>, \<^verbatim>\<open>sentiment\<close>,
  \<^verbatim>\<open>score\<close> and \<^verbatim>\<open>timestamp\<close>, here with the suffix \<open>_r\<close>.
\<close>

record AnalysisResult =
  id_r :: "jsstring option"
  text_r :: jsstring
  sentiment_r :: sentiment
  score_r :: number
  timestamp_r :: date

text \<open>The body of a successful \<^verbatim>\<open>POST /analyze\<close> response, as the source casts it.\<close>

record analyze_data =
  input_text :: jsstring
  sentiment :: sentiment
  compound_score :: number

text \<open>An item of the \<^verbatim>\<open>GET /history\<close> array: the same three fields, \<^verbatim>\<open>id\<close> and \<^verbatim>\<open>created_at\<close>.\<close>

record history_item = analyze_data +
  id_w :: jsstring
  created_at :: jsstring

text \<open>The six \<^verbatim>\<open>useState\<close> slots; \<^verbatim>\<open>text\<close> is \<open>text_s\<close>.\<close>

record state =
  text_s :: jsstring
  result :: "AnalysisResult option"
  history :: "AnalysisResult list"
  isAnalyzing :: bool
  isLoadingHistory :: bool
  errorMessage :: "jsstring option"

definition initial_state :: state where
  "initial_state =
     \<lparr>text_s = [], result = None, history = [], isAnalyzing = False,
      isLoadingHistory = False, errorMessage = None\<rparr>"

section \<open>Pure helpers\<close>

definition getScoreColor :: "number \<Rightarrow> string" where
  "getScoreColor score =
     (if js_greater score lit_0_1 then ''text-positive''
      else if js_less score (js_neg lit_0_1) then ''text-negative''
      else ''text-neutral'')"

text \<open>
  \<^verbatim>\<open>truncateText(text, maxLength = 60)\<close>: the default applies when the argument is
  left out (\<open>None\<close>). A maximal length is a natural number.
\<close>

definition truncateText :: "jsstring \<Rightarrow> nat option \<Rightarrow> jsstring" where
  "truncateText txt maxLength_arg =
     (let maxLength = (case maxLength_arg of None \<Rightarrow> 60 | Some m \<Rightarrow> m)
      in if length txt \<le> maxLength then txt
         else take maxLength txt @ of_ascii ''...'')"

section \<open>Effects: the network, exceptions and the state slots\<close>

text \<open>
  A value that is thrown: an \<^verbatim>\<open>Error\<close> with its \<^verbatim>\<open>message\<close>, or anything that is
  not an instance of \<^verbatim>\<open>Error\<close>.
\<close>

datatype thrown = Error jsstring | NonError

text \<open>
  What the network answers to one request. \<^verbatim>\<open>fetch\<close> rejects, or resolves with a
  response that has a status and a body; \<^verbatim>\<open>response.json()\<close> rejects, or yields
  the decoded value. An exception raised while the decoded value is read (the body is
  \<^verbatim>\<open>null\<close>, or not an array) belongs to \<open>JsonRejects\<close>: it too is raised before
  any slot is written.
\<close>

datatype 'a json_outcome = JsonRejects thrown | Json 'a

datatype 'a fetch_outcome = Rejects thrown | Responds nat "'a json_outcome"

text \<open>\<^verbatim>\<open>response.ok\<close>: the status is in the range 200 to 299.\<close>

definition response_ok :: "nat \<Rightarrow> bool" where
  "response_ok status = (200 \<le> status \<and> status \<le> 299)"

datatype request =
  GET jsstring
| POST_json jsstring jsstring  \<comment> \<open>the URL, and the \<^verbatim>\<open>text\<close> field of the JSON body\<close>

text \<open>
  The world an operation runs in: the state slots, the requests sent so far (oldest
  first), and the state as it stood at each \<^verbatim>\<open>await\<close> on the network, which is what
  the component shows while the operation is suspended.
\<close>

record world =
  st :: state
  requests :: "request list"
  snapshots :: "state list"

text \<open>
  A computation either throws or returns a value, and leaves a world behind in both
  cases.
\<close>

type_synonym 'a js = "world \<Rightarrow> (thrown + 'a) \<times> world"

definition return_js :: "'a \<Rightarrow> 'a js" where
  "return_js v w = (Inr v, w)"

definition throw_js :: "thrown \<Rightarrow> 'a js" where
  "throw_js e w = (Inl e, w)"

definition bind_js :: "'a js \<Rightarrow> ('a \<Rightarrow> 'b js) \<Rightarrow> 'b js" where
  "bind_js m k w = (case m w of (Inl e, w1) \<Rightarrow> (Inl e, w1) | (Inr v, w1) \<Rightarrow> k v w1)"

text \<open>
  \<^verbatim>\<open>try { body } catch (error) { handler } finally { finalizer }\<close>: the handler runs
  when the body throws, the finalizer runs on every path, and what the handler or the
  finalizer throws propagates.
\<close>

definition finally_js :: "(thrown + unit) \<times> world \<Rightarrow> unit js \<Rightarrow> (thrown + unit) \<times> world" where
  "finally_js r finalizer =
     (case finalizer (snd r) of (Inl e, w) \<Rightarrow> (Inl e, w) | (Inr _, w) \<Rightarrow> (fst r, w))"

definition try_catch_finally :: "unit js \<Rightarrow> (thrown \<Rightarrow> unit js) \<Rightarrow> unit js \<Rightarrow> unit js" where
  "try_catch_finally body handler finalizer w =
     (case body w of
        (Inr v, w1) \<Rightarrow> finally_js (Inr v, w1) finalizer
      | (Inl e, w1) \<Rightarrow> finally_js (handler e w1) finalizer)"

definition set_slot :: "(state \<Rightarrow> state) \<Rightarrow> unit js" where
  "set_slot f w = (Inr (), w\<lparr>st := f (st w)\<rparr>)"

definition setText :: "jsstring \<Rightarrow> unit js" where
  "setText v = set_slot (\<lambda>s. s\<lparr>text_s := v\<rparr>)"

definition setResult :: "AnalysisResult option \<Rightarrow> unit js" where
  "setResult v = set_slot (\<lambda>s. s\<lparr>result := v\<rparr>)"

definition setHistory :: "AnalysisResult list \<Rightarrow> unit js" where
  "setHistory v = set_slot (\<lambda>s. s\<lparr>history := v\<rparr>)"

definition setIsAnalyzing :: "bool \<Rightarrow> unit js" where
  "setIsAnalyzing v = set_slot (\<lambda>s. s\<lparr>isAnalyzing := v\<rparr>)"

definition setIsLoadingHistory :: "bool \<Rightarrow> unit js" where
  "setIsLoadingHistory v = set_slot (\<lambda>s. s\<lparr>isLoadingHistory := v\<rparr>)"

definition setErrorMessage :: "jsstring option \<Rightarrow> unit js" where
  "setErrorMessage v = set_slot (\<lambda>s. s\<lparr>errorMessage := v\<rparr>)"

text \<open>
  \<^verbatim>\<open>await fetch(...)\<close> sends the request and suspends the operation; the answer is
  the one the network gives. \<^verbatim>\<open>await response.json()\<close> suspends once more.
\<close>

definition fetch :: "request \<Rightarrow> 'a fetch_outcome \<Rightarrow> (nat \<times> 'a json_outcome) js" where
  "fetch req outcome w =
     (let w1 = w\<lparr>requests := requests w @ [req], snapshots := snapshots w @ [st w]\<rparr>
      in case outcome of
           Rejects e \<Rightarrow> (Inl e, w1)
         | Responds status body \<Rightarrow> (Inr (status, body), w1))"

definition json :: "nat \<times> 'a json_outcome \<Rightarrow> 'a js" where
  "json response w =
     (let w1 = w\<lparr>snapshots := snapshots w @ [st w]\<rparr>
      in case snd response of
           JsonRejects e \<Rightarrow> (Inl e, w1)
         | Json data \<Rightarrow> (Inr data, w1))"

section \<open>The operations of the component\<close>

text \<open>
  What the component takes from its surroundings: the environment variable
  \<^verbatim>\<open>NEXT_PUBLIC_API_URL\<close> and the date parser behind \<^verbatim>\<open>new Date(string)\<close>, which
  yields a time value or NaN (\<open>None\<close>) and never throws.
\<close>

record config =
  NEXT_PUBLIC_API_URL :: "jsstring option"
  Date_parse :: "jsstring \<Rightarrow> int option"

definition strip_trailing_slash :: "jsstring \<Rightarrow> jsstring" where
  "strip_trailing_slash s = (if s \<noteq> [] \<and> last s = 0x2F then butlast s else s)"

definition apiBaseUrl :: "config \<Rightarrow> jsstring" where
  "apiBaseUrl cfg =
     (case NEXT_PUBLIC_API_URL cfg of
        None \<Rightarrow> of_ascii ''http://localhost:8000''
      | Some url \<Rightarrow>
          if strip_trailing_slash url = [] then of_ascii ''http://localhost:8000''
          else strip_trailing_slash url)"

definition new_Date :: "config \<Rightarrow> jsstring \<Rightarrow> date" where
  "new_Date cfg s = (case Date_parse cfg s of None \<Rightarrow> Invalid_Date | Some t \<Rightarrow> Date t)"

text \<open>The function passed to \<^verbatim>\<open>data.map\<close> in \<^verbatim>\<open>fetchHistory\<close>.\<close>

definition map_item :: "config \<Rightarrow> history_item \<Rightarrow> AnalysisResult" where
  "map_item cfg item =
     \<lparr>id_r = Some (id_w item), text_r = input_text item, sentiment_r = sentiment item,
      score_r = compound_score item, timestamp_r = new_Date cfg (created_at item)\<rparr>"

definition error_message :: "thrown \<Rightarrow> jsstring \<Rightarrow> jsstring" where
  "error_message error fallback = (case error of Error message \<Rightarrow> message | NonError \<Rightarrow> fallback)"

definition fetchHistory :: "config \<Rightarrow> history_item list fetch_outcome \<Rightarrow> unit js" where
  "fetchHistory cfg answer =
     bind_js (setIsLoadingHistory True) (\<lambda>_.
     bind_js (setErrorMessage None) (\<lambda>_.
     try_catch_finally
       (bind_js (fetch (GET (apiBaseUrl cfg @ of_ascii ''/history?limit=10'')) answer) (\<lambda>response.
        bind_js (if \<not> response_ok (fst response)
                 then throw_js (Error (of_ascii ''Failed to load history''))
                 else return_js ()) (\<lambda>_.
        bind_js (json response) (\<lambda>data.
        setHistory (map (map_item cfg) data)))))
       (\<lambda>error. setErrorMessage (Some (error_message error (of_ascii ''Failed to load history''))))
       (setIsLoadingHistory False)))"

text \<open>
  \<^verbatim>\<open>handleAnalyze\<close>; \<open>now\<close> is the time value the clock gives to \<^verbatim>\<open>new Date()\<close>,
  \<open>answer\<close> is the answer to the analyze request and \<open>history_answer\<close> the answer to the
  history request that follows it.
\<close>

definition handleAnalyze ::
  "config \<Rightarrow> int \<Rightarrow> analyze_data fetch_outcome \<Rightarrow> history_item list fetch_outcome \<Rightarrow> unit js" where
  "handleAnalyze cfg now answer history_answer w =
     (let txt = text_s (st w) in
      if trim txt = [] then return_js () w
      else
       (bind_js (setIsAnalyzing True) (\<lambda>_.
        bind_js (setErrorMessage None) (\<lambda>_.
        try_catch_finally
          (bind_js (fetch (POST_json (apiBaseUrl cfg @ of_ascii ''/analyze'') (trim txt)) answer)
             (\<lambda>response.
           bind_js (if \<not> response_ok (fst response)
                    then throw_js (Error (of_ascii ''Analysis failed. Please try again.''))
                    else return_js ()) (\<lambda>_.
           bind_js (json response) (\<lambda>data.
           bind_js (setResult (Some
                      \<lparr>id_r = None, text_r = input_text data, sentiment_r = sentiment data,
                       score_r = compound_score data, timestamp_r = Date now\<rparr>)) (\<lambda>_.
           fetchHistory cfg history_answer)))))
          (\<lambda>error. setErrorMessage (Some (error_message error (of_ascii ''Analysis failed.''))))
          (setIsAnalyzing False)))) w)"

section \<open>Runs of the component\<close>

text \<open>
  The component mounts in the initial state and its effect calls \<^verbatim>\<open>fetchHistory\<close>
  once. After that the user edits the text area (\<^verbatim>\<open>setText\<close>) and presses the
  button (\<^verbatim>\<open>handleAnalyze\<close>). Each event carries what the surroundings answer, and an
  operation runs to its end before the next event is taken.
\<close>

datatype event =
  Edit jsstring
| Analyze int "analyze_data fetch_outcome" "history_item list fetch_outcome"

definition initial_world :: world where
  "initial_world = \<lparr>st = initial_state, requests = [], snapshots = []\<rparr>"

definition mount :: "config \<Rightarrow> history_item list fetch_outcome \<Rightarrow> world" where
  "mount cfg answer = snd (fetchHistory cfg answer initial_world)"

fun step :: "config \<Rightarrow> world \<Rightarrow> event \<Rightarrow> world" where
  "step cfg w (Edit v) = snd (setText v w)"
| "step cfg w (Analyze now answer history_answer) =
     snd (handleAnalyze cfg now answer history_answer w)"

definition run :: "config \<Rightarrow> history_item list fetch_outcome \<Rightarrow> event list \<Rightarrow> world" where
  "run cfg answer events = foldl (step cfg) (mount cfg answer) events"

section \<open>Vocabulary of the properties\<close>

text \<open>
  The state right after the synchronous prefix of \<^verbatim>\<open>fetchHistory\<close>, respectively of
  \<^verbatim>\<open>handleAnalyze\<close>: this is what is on display while the request is in flight.
\<close>

definition loading :: "state \<Rightarrow> state" where
  "loading s = s\<lparr>isLoadingHistory := True, errorMessage := None\<rparr>"

definition analyzing :: "state \<Rightarrow> state" where
  "analyzing s = s\<lparr>isAnalyzing := True, errorMessage := None\<rparr>"

text \<open>
  The world in which \<^verbatim>\<open>handleAnalyze\<close> calls \<^verbatim>\<open>fetchHistory\<close>: the analyze request
  has been sent, both of its awaits have passed, and \<^verbatim>\<open>setResult\<close> has run.
\<close>

definition result_set :: "config \<Rightarrow> int \<Rightarrow> analyze_data \<Rightarrow> world \<Rightarrow> world" where
  "result_set cfg now data w =
     w\<lparr>requests := requests w @
         [POST_json (apiBaseUrl cfg @ of_ascii ''/analyze'') (trim (text_s (st w)))],
       snapshots := snapshots w @ [analyzing (st w), analyzing (st w)],
       st := (analyzing (st w))\<lparr>result := Some
            \<lparr>id_r = None, text_r = input_text data, sentiment_r = sentiment data,
             score_r = compound_score data, timestamp_r = Date now\<rparr>\<rparr>\<rparr>"

text \<open>
  The exception, if any, that an answer of the network raises inside a \<^verbatim>\<open>try\<close> block
  whose message for a status outside 200 to 299 is \<open>http_message\<close>. An answer fails when
  it raises one.
\<close>

definition raised :: "jsstring \<Rightarrow> 'a fetch_outcome \<Rightarrow> thrown option" where
  "raised http_message answer =
     (case answer of
        Rejects e \<Rightarrow> Some e
      | Responds status body \<Rightarrow>
          if \<not> response_ok status then Some (Error http_message)
          else (case body of JsonRejects e \<Rightarrow> Some e | Json _ \<Rightarrow> None))"

text \<open>The states shown between two worlds of one run.\<close>

definition shown_between :: "world \<Rightarrow> world \<Rightarrow> state list" where
  "shown_between w w1 = drop (length (snapshots w)) (snapshots w1)"

text \<open>The service honours \<^verbatim>\<open>limit=10\<close>: an array it returns has at most ten items.\<close>

definition within_limit :: "history_item list fetch_outcome \<Rightarrow> bool" where
  "within_limit answer =
     (case answer of
        Rejects e \<Rightarrow> True
      | Responds status body \<Rightarrow> (case body of JsonRejects e \<Rightarrow> True | Json items \<Rightarrow> length items \<le> 10))"

fun event_within_limit :: "event \<Rightarrow> bool" where
  "event_within_limit (Edit v) = True"
| "event_within_limit (Analyze now answer history_answer) = within_limit history_answer"

definition capped :: "world \<Rightarrow> bool" where
  "capped w = (length (history (st w)) \<le> 10 \<and> list_all (\<lambda>s. length (history s) \<le> 10) (snapshots w))"

definition known_request :: "config \<Rightarrow> request \<Rightarrow> bool" where
  "known_request cfg r =
     (case r of
        GET url \<Rightarrow> url = apiBaseUrl cfg @ of_ascii ''/history?limit=10''
      | POST_json url body \<Rightarrow> url = apiBaseUrl cfg @ of_ascii ''/analyze'')"

subsection \<open>Sample data\<close>

text \<open>
  A date parser that knows one ISO-8601 instant and takes every other string to be
  malformed; on the strings used below it agrees with \<^verbatim>\<open>Date.parse\<close>.
\<close>

definition sample_Date_parse :: "jsstring \<Rightarrow> int option" where
  "sample_Date_parse s =
     (if s = of_ascii ''2024-05-01T12:00:00.000Z'' then Some 1714564800000 else None)"

definition sample_config :: config where
  "sample_config = \<lparr>NEXT_PUBLIC_API_URL = None, Date_parse = sample_Date_parse\<rparr>"

definition sample_data :: analyze_data where
  "sample_data =
     \<lparr>input_text = of_ascii ''I love this product!'', sentiment = Positive,
      compound_score = Finite (4 / 5)\<rparr>"

definition sample_item :: history_item where
  "sample_item =
     \<lparr>input_text = of_ascii ''I love this product!'', sentiment = Positive,
      compound_score = Finite (4 / 5), id_w = of_ascii ''a1'',
      created_at = of_ascii ''2024-05-01T12:00:00.000Z''\<rparr>"

definition malformed_item :: history_item where
  "malformed_item =
     \<lparr>input_text = of_ascii ''meh'', sentiment = Neutral,
      compound_score = Finite 0, id_w = of_ascii ''a2'',
      created_at = of_ascii ''not a date''\<rparr>"

text \<open>The world after the user has typed a sentence into the freshly mounted component.\<close>

definition typed_world :: world where
  "typed_world =
     \<lparr>st = initial_state\<lparr>text_s := of_ascii ''  I love this product! ''\<rparr>,
      requests = [], snapshots = []\<rparr>"

text \<open>The same component with a sentence typed and an error of an earlier submission on display.\<close>

definition stale_world :: world where
  "stale_world =
     \<lparr>st = initial_state\<lparr>text_s := of_ascii ''so so'',
        errorMessage := Some (of_ascii ''Analysis failed. Please try again.'')\<rparr>,
      requests = [], snapshots = []\<rparr>"

section \<open>Evaluating the operations\<close>

lemmas js_defs = bind_js_def return_js_def throw_js_def try_catch_finally_def finally_js_def
  set_slot_def setText_def setResult_def setHistory_def setIsAnalyzing_def
  setIsLoadingHistory_def setErrorMessage_def fetch_def json_def

lemma fetchHistory_Rejects:
  "fetchHistory cfg (Rejects e) w =
     (Inr (), w\<lparr>st := (st w)\<lparr>isLoadingHistory := False,
                   errorMessage := Some (error_message e (of_ascii ''Failed to load history''))\<rparr>,
                requests := requests w @ [GET (apiBaseUrl cfg @ of_ascii ''/history?limit=10'')],
                snapshots := snapshots w @ [loading (st w)]\<rparr>)"
  by (simp add: fetchHistory_def js_defs loading_def)

lemma fetchHistory_not_ok:
  "\<not> response_ok status \<Longrightarrow> fetchHistory cfg (Responds status body) w =
     (Inr (), w\<lparr>st := (st w)\<lparr>isLoadingHistory := False,
                   errorMessage := Some (of_ascii ''Failed to load history'')\<rparr>,
                requests := requests w @ [GET (apiBaseUrl cfg @ of_ascii ''/history?limit=10'')],
                snapshots := snapshots w @ [loading (st w)]\<rparr>)"
  by (simp add: fetchHistory_def js_defs loading_def error_message_def)

lemma fetchHistory_JsonRejects:
  "response_ok status \<Longrightarrow> fetchHistory cfg (Responds status (JsonRejects e)) w =
     (Inr (), w\<lparr>st := (st w)\<lparr>isLoadingHistory := False,
                   errorMessage := Some (error_message e (of_ascii ''Failed to load history''))\<rparr>,
                requests := requests w @ [GET (apiBaseUrl cfg @ of_ascii ''/history?limit=10'')],
                snapshots := snapshots w @ [loading (st w), loading (st w)]\<rparr>)"
  by (simp add: fetchHistory_def js_defs loading_def)

lemma fetchHistory_Json:
  "response_ok status \<Longrightarrow> fetchHistory cfg (Responds status (Json items)) w =
     (Inr (), w\<lparr>st := (st w)\<lparr>isLoadingHistory := False, errorMessage := None,
                   history := map (map_item cfg) items\<rparr>,
                requests := requests w @ [GET (apiBaseUrl cfg @ of_ascii ''/history?limit=10'')],
                snapshots := snapshots w @ [loading (st w), loading (st w)]\<rparr>)"
  by (simp add: fetchHistory_def js_defs loading_def)

lemma fetchHistory_returns: "fst (fetchHistory cfg answer w) = Inr ()"
proof (cases answer)
  case (Rejects e)
  then show ?thesis by (simp add: fetchHistory_Rejects)
next
  case (Responds status body)
  show ?thesis
  proof (cases "response_ok status")
    case False
    with Responds show ?thesis by (simp add: fetchHistory_not_ok)
  next
    case True
    with Responds show ?thesis
      by (cases body) (simp_all add: fetchHistory_JsonRejects fetchHistory_Json)
  qed
qed

lemma handleAnalyze_blank:
  "trim (text_s (st w)) = [] \<Longrightarrow> handleAnalyze cfg now answer history_answer w = (Inr (), w)"
  by (simp add: handleAnalyze_def return_js_def)

lemma handleAnalyze_Rejects:
  "trim (text_s (st w)) \<noteq> [] \<Longrightarrow>
   handleAnalyze cfg now (Rejects e) history_answer w =
     (Inr (), w\<lparr>st := (st w)\<lparr>isAnalyzing := False,
                   errorMessage := Some (error_message e (of_ascii ''Analysis failed.''))\<rparr>,
                requests := requests w @
                  [POST_json (apiBaseUrl cfg @ of_ascii ''/analyze'') (trim (text_s (st w)))],
                snapshots := snapshots w @ [analyzing (st w)]\<rparr>)"
  by (simp add: handleAnalyze_def js_defs analyzing_def)

lemma handleAnalyze_not_ok:
  "trim (text_s (st w)) \<noteq> [] \<Longrightarrow> \<not> response_ok status \<Longrightarrow>
   handleAnalyze cfg now (Responds status body) history_answer w =
     (Inr (), w\<lparr>st := (st w)\<lparr>isAnalyzing := False,
                   errorMessage := Some (of_ascii ''Analysis failed. Please try again.'')\<rparr>,
                requests := requests w @
                  [POST_json (apiBaseUrl cfg @ of_ascii ''/analyze'') (trim (text_s (st w)))],
                snapshots := snapshots w @ [analyzing (st w)]\<rparr>)"
  by (simp add: handleAnalyze_def js_defs analyzing_def error_message_def)

lemma handleAnalyze_JsonRejects:
  "trim (text_s (st w)) \<noteq> [] \<Longrightarrow> response_ok status \<Longrightarrow>
   handleAnalyze cfg now (Responds status (JsonRejects e)) history_answer w =
     (Inr (), w\<lparr>st := (st w)\<lparr>isAnalyzing := False,
                   errorMessage := Some (error_message e (of_ascii ''Analysis failed.''))\<rparr>,
                requests := requests w @
                  [POST_json (apiBaseUrl cfg @ of_ascii ''/analyze'') (trim (text_s (st w)))],
                snapshots := snapshots w @ [analyzing (st w), analyzing (st w)]\<rparr>)"
  by (simp add: handleAnalyze_def js_defs analyzing_def)

lemma handleAnalyze_Json:
  assumes "trim (text_s (st w)) \<noteq> []" and "response_ok status"
  shows "handleAnalyze cfg now (Responds status (Json data)) history_answer w =
     (Inr (), (snd (fetchHistory cfg history_answer (result_set cfg now data w)))
                \<lparr>st := (st (snd (fetchHistory cfg history_answer (result_set cfg now data w))))
                         \<lparr>isAnalyzing := False\<rparr>\<rparr>)"
proof -
  obtain w1 where w1: "fetchHistory cfg history_answer (result_set cfg now data w) = (Inr (), w1)"
    using fetchHistory_returns [of cfg history_answer "result_set cfg now data w"]
    by (cases "fetchHistory cfg history_answer (result_set cfg now data w)") simp
  from w1 assms show ?thesis
    by (simp add: handleAnalyze_def js_defs result_set_def analyzing_def)
qed

subsection \<open>What every run of \<^verbatim>\<open>fetchHistory\<close> does\<close>

lemma fetch_outcome_cases [case_names Rejects not_ok JsonRejects Json]:
  obtains e where "answer = Rejects e"
  | status body where "answer = Responds status body" and "\<not> response_ok status"
  | status e where "answer = Responds status (JsonRejects e)" and "response_ok status"
  | status data where "answer = Responds status (Json data)" and "response_ok status"
proof (cases answer)
  case (Rejects e)
  then show ?thesis using that(1) by blast
next
  case (Responds status body)
  then show ?thesis using that(2,3,4) by (cases body; cases "response_ok status") auto
qed

lemmas fetchHistory_evals =
  fetchHistory_Rejects fetchHistory_not_ok fetchHistory_JsonRejects fetchHistory_Json

lemma trim_empty_iff: "trim s = [] \<longleftrightarrow> list_all is_white_space s"
proof
  assume "trim s = []"
  then have "\<forall>c\<in>set (dropWhile is_white_space s). is_white_space c"
    by (simp add: trim_def)
  then have "dropWhile is_white_space s = []"
    using hd_dropWhile [of is_white_space s] hd_in_set [of "dropWhile is_white_space s"] by blast
  then show "list_all is_white_space s"
    by (simp add: list_all_iff)
next
  assume "list_all is_white_space s"
  then show "trim s = []"
    by (auto simp: trim_def list_all_iff dest: set_dropWhileD)
qed

lemma fetchHistory_frame:
  "text_s (st (snd (fetchHistory cfg answer w))) = text_s (st w) \<and>
   result (st (snd (fetchHistory cfg answer w))) = result (st w) \<and>
   isAnalyzing (st (snd (fetchHistory cfg answer w))) = isAnalyzing (st w) \<and>
   \<not> isLoadingHistory (st (snd (fetchHistory cfg answer w))) \<and>
   requests (snd (fetchHistory cfg answer w)) =
     requests w @ [GET (apiBaseUrl cfg @ of_ascii ''/history?limit=10'')]"
  by (cases answer rule: fetch_outcome_cases) (simp_all add: fetchHistory_evals)

lemma fetchHistory_errorMessage:
  "errorMessage (st (snd (fetchHistory cfg answer w))) =
     map_option (\<lambda>e. error_message e (of_ascii ''Failed to load history''))
       (raised (of_ascii ''Failed to load history'') answer)"
  by (cases answer rule: fetch_outcome_cases)
    (simp_all add: fetchHistory_evals raised_def error_message_def)

lemma fetchHistory_shown:
  "set (shown_between w (snd (fetchHistory cfg answer w))) = {loading (st w)}"
  by (cases answer rule: fetch_outcome_cases) (simp_all add: fetchHistory_evals shown_between_def)

subsection \<open>What every run of \<^verbatim>\<open>handleAnalyze\<close> does\<close>

lemma handleAnalyze_returns: "fst (handleAnalyze cfg now answer history_answer w) = Inr ()"
proof (cases "trim (text_s (st w)) = []")
  case True
  then show ?thesis by (simp add: handleAnalyze_blank)
next
  case False
  then show ?thesis
    by (cases answer rule: fetch_outcome_cases)
      (simp_all add: handleAnalyze_Rejects handleAnalyze_not_ok handleAnalyze_JsonRejects
        handleAnalyze_Json)
qed

lemma result_set_sel:
  "text_s (st (result_set cfg now data w)) = text_s (st w)"
  "result (st (result_set cfg now data w)) = Some
     \<lparr>id_r = None, text_r = input_text data, sentiment_r = sentiment data,
      score_r = compound_score data, timestamp_r = Date now\<rparr>"
  "history (st (result_set cfg now data w)) = history (st w)"
  "requests (result_set cfg now data w) = requests w @
     [POST_json (apiBaseUrl cfg @ of_ascii ''/analyze'') (trim (text_s (st w)))]"
  "snapshots (result_set cfg now data w) = snapshots w @ [analyzing (st w), analyzing (st w)]"
  by (simp_all add: result_set_def analyzing_def)

lemma handleAnalyze_outcome:
  assumes "trim (text_s (st w)) \<noteq> []"
  shows "\<not> isAnalyzing (st (snd (handleAnalyze cfg now answer history_answer w))) \<and>
    errorMessage (st (snd (handleAnalyze cfg now answer history_answer w))) =
      (case raised (of_ascii ''Analysis failed. Please try again.'') answer of
         Some e \<Rightarrow> Some (error_message e (of_ascii ''Analysis failed.''))
       | None \<Rightarrow> map_option (\<lambda>e. error_message e (of_ascii ''Failed to load history''))
           (raised (of_ascii ''Failed to load history'') history_answer))"
  using assms
  by (cases answer rule: fetch_outcome_cases)
    (simp_all add: handleAnalyze_Rejects handleAnalyze_not_ok handleAnalyze_JsonRejects
      handleAnalyze_Json raised_def error_message_def fetchHistory_errorMessage)

subsection \<open>What every run of the component keeps\<close>

lemma fetchHistory_capped:
  assumes "capped w" and "within_limit answer"
  shows "capped (snd (fetchHistory cfg answer w))"
  using assms
  by (cases answer rule: fetch_outcome_cases)
    (simp_all add: fetchHistory_evals capped_def within_limit_def loading_def)

lemma result_set_capped: "capped w \<Longrightarrow> capped (result_set cfg now data w)"
  by (simp add: capped_def result_set_def analyzing_def)

lemma handleAnalyze_capped:
  assumes "capped w" and "within_limit history_answer"
  shows "capped (snd (handleAnalyze cfg now answer history_answer w))"
proof (cases "trim (text_s (st w)) = []")
  case True
  with assms show ?thesis by (simp add: handleAnalyze_blank)
next
  case False
  show ?thesis
  proof (cases answer rule: fetch_outcome_cases)
    case (Json status data)
    have "capped (snd (fetchHistory cfg history_answer (result_set cfg now data w)))"
      using assms by (simp add: fetchHistory_capped result_set_capped)
    with False Json show ?thesis
      by (simp add: handleAnalyze_Json capped_def)
  qed (use False assms in \<open>simp_all add: handleAnalyze_Rejects handleAnalyze_not_ok
      handleAnalyze_JsonRejects capped_def analyzing_def\<close>)
qed

lemma step_capped: "capped w \<Longrightarrow> event_within_limit ev \<Longrightarrow> capped (step cfg w ev)"
proof (cases ev)
  case (Edit v)
  assume "capped w"
  with Edit show ?thesis by (simp add: setText_def set_slot_def capped_def)
next
  case (Analyze now answer history_answer)
  assume "capped w" and "event_within_limit ev"
  with Analyze show ?thesis by (simp add: handleAnalyze_capped)
qed

lemma foldl_step_capped:
  "capped w \<Longrightarrow> list_all event_within_limit events \<Longrightarrow> capped (foldl (step cfg) w events)"
  by (induction events arbitrary: w) (simp_all add: step_capped)

lemma fetchHistory_known:
  "list_all (known_request cfg) (requests w) \<Longrightarrow>
   list_all (known_request cfg) (requests (snd (fetchHistory cfg answer w)))"
  by (simp add: fetchHistory_frame known_request_def)

lemma handleAnalyze_known:
  assumes "list_all (known_request cfg) (requests w)"
  shows "list_all (known_request cfg) (requests (snd (handleAnalyze cfg now answer history_answer w)))"
proof (cases "trim (text_s (st w)) = []")
  case True
  with assms show ?thesis by (simp add: handleAnalyze_blank)
next
  case False
  with assms show ?thesis
    by (cases answer rule: fetch_outcome_cases)
      (simp_all add: handleAnalyze_Rejects handleAnalyze_not_ok handleAnalyze_JsonRejects
        handleAnalyze_Json fetchHistory_frame result_set_sel known_request_def)
qed

lemma foldl_step_known:
  "list_all (known_request cfg) (requests w) \<Longrightarrow>
   list_all (known_request cfg) (requests (foldl (step cfg) w events))"
proof (induction events arbitrary: w)
  case Nil
  then show ?case by simp
next
  case (Cons ev events)
  have "list_all (known_request cfg) (requests (step cfg w ev))"
    using Cons.prems by (cases ev) (simp_all add: handleAnalyze_known setText_def set_slot_def)
  then show ?case by (simp add: Cons.IH)
qed

section \<open>Properties of the operations\<close>



text \<open>
  Claim C2, as the code has it. When the text is not blank and the analyze request fails
  (\<^verbatim>\<open>fetch\<close> rejects, the status is outside 200 to 299, or the body cannot be decoded),
  \<^verbatim>\<open>handleAnalyze\<close> returns normally, leaves \<^verbatim>\<open>result\<close>, \<^verbatim>\<open>history\<close> and \<^verbatim>\<open>text\<close> as
  they were, sets \<^verbatim>\<open>errorMessage\<close>, sends no history request, and leaves \<^verbatim>\<open>isAnalyzing\<close>
  false. The message it sets is \<^verbatim>\<open>Analysis failed. Please try again.\<close> for a bad status,
  \<^verbatim>\<open>Analysis failed.\<close> for a thrown value that is no \<^verbatim>\<open>Error\<close>, and the message of the
  thrown \<^verbatim>\<open>Error\<close> itself otherwise, copied as it is. So the message is empty exactly
  when an \<^verbatim>\<open>Error\<close> with the empty message was thrown.
\<close>

theorem handleAnalyze_failure:
  assumes "trim (text_s (st w)) \<noteq> []"
    and "raised (of_ascii ''Analysis failed. Please try again.'') answer = Some e"
    and "handleAnalyze cfg now answer history_answer w = (r, w1)"
  shows "r = Inr () \<and>
    result (st w1) = result (st w) \<and> history (st w1) = history (st w) \<and>
    text_s (st w1) = text_s (st w) \<and>
    errorMessage (st w1) = Some (error_message e (of_ascii ''Analysis failed.'')) \<and>
    (error_message e (of_ascii ''Analysis failed.'') = [] \<longleftrightarrow> e = Error []) \<and>
    (case answer of
       Rejects thrown_value \<Rightarrow> True
     | Responds status body \<Rightarrow>
         response_ok status \<or>
         errorMessage (st w1) = Some (of_ascii ''Analysis failed. Please try again.'')) \<and>
    \<not> isAnalyzing (st w1) \<and>
    requests w1 = requests w @
      [POST_json (apiBaseUrl cfg @ of_ascii ''/analyze'') (trim (text_s (st w)))]"
proof -
  have empty_iff: "error_message e (of_ascii ''Analysis failed.'') = [] \<longleftrightarrow> e = Error []"
    by (cases e) (simp_all add: error_message_def of_ascii_def)
  have slots: "r = Inr () \<and>
    result (st w1) = result (st w) \<and> history (st w1) = history (st w) \<and>
    text_s (st w1) = text_s (st w) \<and>
    errorMessage (st w1) = Some (error_message e (of_ascii ''Analysis failed.'')) \<and>
    \<not> isAnalyzing (st w1) \<and>
    requests w1 = requests w @
      [POST_json (apiBaseUrl cfg @ of_ascii ''/analyze'') (trim (text_s (st w)))]"
    using assms
    by (cases answer rule: fetch_outcome_cases)
      (auto simp: raised_def error_message_def handleAnalyze_Rejects handleAnalyze_not_ok
        handleAnalyze_JsonRejects)
  have bad_status: "case answer of
       Rejects thrown_value \<Rightarrow> True
     | Responds status body \<Rightarrow>
         response_ok status \<or>
         errorMessage (st w1) = Some (of_ascii ''Analysis failed. Please try again.'')"
  proof (cases answer)
    case (Rejects thrown_value)
    then show ?thesis by simp
  next
    case (Responds status body)
    show ?thesis
    proof (cases "response_ok status")
      case True
      with Responds show ?thesis by simp
    next
      case False
      with Responds assms(2) have "e = Error (of_ascii ''Analysis failed. Please try again.'')"
        by (simp add: raised_def)
      with slots Responds show ?thesis
        by (simp add: error_message_def)
    qed
  qed
  from slots empty_iff bad_status show ?thesis
    by simp
qed

theorem handleAnalyze_failure_witness:
  "errorMessage (st (snd (handleAnalyze sample_config 0 (Responds 500 (Json sample_data))
      (Responds 200 (Json [sample_item])) typed_world))) =
     Some (of_ascii ''Analysis failed. Please try again.'') \<and>
   result (st (snd (handleAnalyze sample_config 0 (Responds 500 (Json sample_data))
      (Responds 200 (Json [sample_item])) typed_world))) = None \<and>
   history (st (snd (handleAnalyze sample_config 0 (Responds 500 (Json sample_data))
      (Responds 200 (Json [sample_item])) typed_world))) = [] \<and>
   \<not> isAnalyzing (st (snd (handleAnalyze sample_config 0 (Responds 500 (Json sample_data))
      (Responds 200 (Json [sample_item])) typed_world))) \<and>
   errorMessage (st (snd (handleAnalyze sample_config 0 (Rejects (Error (of_ascii ''Failed to fetch'')))
      (Responds 200 (Json [sample_item])) typed_world))) = Some (of_ascii ''Failed to fetch'') \<and>
   errorMessage (st (snd (handleAnalyze sample_config 0 (Responds 200 (JsonRejects NonError))
      (Responds 200 (Json [sample_item])) typed_world))) = Some (of_ascii ''Analysis failed.'')"
proof -
  have nonblank: "trim (text_s (st typed_world)) \<noteq> []"
    by (simp add: typed_world_def trim_def is_white_space_def of_ascii_def)
  have r1: "raised (of_ascii ''Analysis failed. Please try again.'') (Responds 500 (Json sample_data))
     = Some (Error (of_ascii ''Analysis failed. Please try again.''))"
    by (simp add: raised_def response_ok_def)
  have r2: "raised (of_ascii ''Analysis failed. Please try again.'')
     (Rejects (Error (of_ascii ''Failed to fetch'')) :: analyze_data fetch_outcome)
     = Some (Error (of_ascii ''Failed to fetch''))"
    by (simp add: raised_def)
  have r3: "raised (of_ascii ''Analysis failed. Please try again.'')
     (Responds 200 (JsonRejects NonError) :: analyze_data fetch_outcome) = Some NonError"
    by (simp add: raised_def response_ok_def)
  show ?thesis
    using handleAnalyze_failure [OF nonblank r1 surjective_pairing, of sample_config 0
        "Responds 200 (Json [sample_item])"]
      handleAnalyze_failure [OF nonblank r2 surjective_pairing, of sample_config 0
        "Responds 200 (Json [sample_item])"]
      handleAnalyze_failure [OF nonblank r3 surjective_pairing, of sample_config 0
        "Responds 200 (Json [sample_item])"]
    by (simp add: error_message_def typed_world_def initial_state_def)
qed

text \<open>
  The submission below is answered by a \<^verbatim>\<open>fetch\<close> that rejects with an \<^verbatim>\<open>Error\<close> whose
  message is the empty string: the catch block stores that message, so \<^verbatim>\<open>errorMessage\<close>
  is set, and set to the empty string.
\<close>

theorem handleAnalyze_failure_counterexample:
  "trim (text_s (st typed_world)) \<noteq> [] \<and>
   raised (of_ascii ''Analysis failed. Please try again.'')
     (Rejects (Error []) :: analyze_data fetch_outcome) = Some (Error []) \<and>
   errorMessage (st (snd (handleAnalyze sample_config 0 (Rejects (Error []))
      (Responds 200 (Json [])) typed_world))) = Some []"
proof -
  have nonblank: "trim (text_s (st typed_world)) \<noteq> []"
    by (simp add: typed_world_def trim_def is_white_space_def of_ascii_def)
  then show ?thesis
    by (simp add: handleAnalyze_Rejects error_message_def raised_def)
qed

text \<open>
  Claim C3. When the history request is answered with a status in 200 to 299 and an array,
  \<^verbatim>\<open>fetchHistory\<close> replaces \<^verbatim>\<open>history\<close> by a list of the same length and order, whose
  i-th record has the id, \<^verbatim>\<open>input_text\<close>, sentiment and \<^verbatim>\<open>compound_score\<close> of the i-th
  item and as timestamp the date parsed from its \<^verbatim>\<open>created_at\<close>; no error is set. For
  the empty array \<^verbatim>\<open>history\<close> becomes empty.
\<close>

theorem fetchHistory_normalizes:
  assumes "response_ok status"
    and "fetchHistory cfg (Responds status (Json items)) w = (r, w1)"
  shows "r = Inr () \<and>
    history (st w1) = map (map_item cfg) items \<and>
    length (history (st w1)) = length items \<and>
    (\<forall>i<length items.
       id_r (history (st w1) ! i) = Some (id_w (items ! i)) \<and>
       text_r (history (st w1) ! i) = input_text (items ! i) \<and>
       sentiment_r (history (st w1) ! i) = sentiment (items ! i) \<and>
       score_r (history (st w1) ! i) = compound_score (items ! i) \<and>
       timestamp_r (history (st w1) ! i) = new_Date cfg (created_at (items ! i))) \<and>
    errorMessage (st w1) = None \<and>
    (items = [] \<longrightarrow> history (st w1) = [])"
  using assms by (auto simp: fetchHistory_Json map_item_def)

theorem fetchHistory_normalizes_witness:
  "history (st (snd (fetchHistory sample_config (Responds 200 (Json [sample_item, malformed_item]))
      typed_world))) =
     [\<lparr>id_r = Some (of_ascii ''a1''), text_r = of_ascii ''I love this product!'',
       sentiment_r = Positive, score_r = Finite (4 / 5), timestamp_r = Date 1714564800000\<rparr>,
      \<lparr>id_r = Some (of_ascii ''a2''), text_r = of_ascii ''meh'',
       sentiment_r = Neutral, score_r = Finite 0, timestamp_r = Invalid_Date\<rparr>] \<and>
   history (st (snd (fetchHistory sample_config (Responds 200 (Json [])) typed_world))) = [] \<and>
   errorMessage (st (snd (fetchHistory sample_config (Responds 200 (Json [])) typed_world))) = None"
proof -
  have ok: "response_ok 200"
    by (simp add: response_ok_def)
  show ?thesis
    using fetchHistory_normalizes [OF ok surjective_pairing,
        of sample_config "[sample_item, malformed_item]" typed_world]
      fetchHistory_normalizes [OF ok surjective_pairing, of sample_config "[]" typed_world]
    by (simp add: map_item_def new_Date_def sample_config_def sample_Date_parse_def
        sample_item_def malformed_item_def of_ascii_def)
qed

text \<open>
  Claim C4. The text trims to the empty string exactly when it is empty or made of white
  space only, and then \<^verbatim>\<open>handleAnalyze\<close> returns at once: it sends no request, leaves
  all six slots as they were, and reports nothing.
\<close>

theorem handleAnalyze_blank_is_noop:
  "(trim (text_s (st w)) = [] \<longleftrightarrow> list_all is_white_space (text_s (st w))) \<and>
   (trim (text_s (st w)) = [] \<longrightarrow>
      handleAnalyze cfg now answer history_answer w = (Inr (), w))"
  by (simp add: trim_empty_iff handleAnalyze_blank)

theorem handleAnalyze_blank_is_noop_witness:
  "handleAnalyze sample_config 0 (Responds 200 (Json sample_data)) (Responds 200 (Json []))
     (initial_world\<lparr>st := initial_state\<lparr>text_s := [0x20, 0x09, 0x0A, 0x3000]\<rparr>\<rparr>) =
     (Inr (), initial_world\<lparr>st := initial_state\<lparr>text_s := [0x20, 0x09, 0x0A, 0x3000]\<rparr>\<rparr>) \<and>
   handleAnalyze sample_config 0 (Responds 200 (Json sample_data)) (Responds 200 (Json []))
     initial_world = (Inr (), initial_world)"
  using handleAnalyze_blank_is_noop [of "initial_world\<lparr>st := initial_state\<lparr>text_s := [0x20, 0x09, 0x0A, 0x3000]\<rparr>\<rparr>"
      sample_config 0 "Responds 200 (Json sample_data)" "Responds 200 (Json [])"]
    handleAnalyze_blank_is_noop [of initial_world
      sample_config 0 "Responds 200 (Json sample_data)" "Responds 200 (Json [])"]
  by (simp add: is_white_space_def initial_world_def initial_state_def)

text \<open>
  Claim C5, as the code has it. \<^verbatim>\<open>new Date\<close> of a string that cannot be parsed does not
  throw, it yields the Invalid Date. So when the history request is answered with a status
  in 200 to 299 and an array one of whose items has a malformed \<^verbatim>\<open>created_at\<close>,
  \<^verbatim>\<open>fetchHistory\<close> returns normally and reports no error: \<^verbatim>\<open>history\<close> is replaced by the
  whole mapped array, and the record of that item carries the Invalid Date as timestamp.
\<close>

theorem fetchHistory_keeps_malformed_created_at:
  assumes "response_ok status"
    and "i < length items"
    and "Date_parse cfg (created_at (items ! i)) = None"
    and "fetchHistory cfg (Responds status (Json items)) w = (r, w1)"
  shows "r = Inr () \<and> errorMessage (st w1) = None \<and> \<not> isLoadingHistory (st w1) \<and>
    history (st w1) = map (map_item cfg) items \<and>
    length (history (st w1)) = length items \<and>
    timestamp_r (history (st w1) ! i) = Invalid_Date"
  using assms by (auto simp: fetchHistory_Json map_item_def new_Date_def)

theorem fetchHistory_keeps_malformed_created_at_witness:
  "timestamp_r (history (st (snd (fetchHistory sample_config
      (Responds 200 (Json [sample_item, malformed_item])) initial_world))) ! 1) = Invalid_Date \<and>
   length (history (st (snd (fetchHistory sample_config
      (Responds 200 (Json [sample_item, malformed_item])) initial_world)))) = 2 \<and>
   errorMessage (st (snd (fetchHistory sample_config
      (Responds 200 (Json [sample_item, malformed_item])) initial_world))) = None"
proof -
  have ok: "response_ok 200"
    by (simp add: response_ok_def)
  have pos: "1 < length [sample_item, malformed_item]"
    by simp
  have bad: "Date_parse sample_config (created_at ([sample_item, malformed_item] ! 1)) = None"
    by (simp add: sample_config_def sample_Date_parse_def malformed_item_def of_ascii_def)
  show ?thesis
    using fetchHistory_keeps_malformed_created_at
      [where w = initial_world, OF ok pos bad surjective_pairing]
    by auto
qed

text \<open>
  The refresh below is answered with one item whose \<^verbatim>\<open>created_at\<close> is \<^verbatim>\<open>not a date\<close>:
  no error is set, and \<^verbatim>\<open>history\<close>, empty before, holds a record with the Invalid Date.
\<close>

theorem malformed_created_at_counterexample:
  "Date_parse sample_config (created_at malformed_item) = None \<and>
   errorMessage (st (snd (fetchHistory sample_config (Responds 200 (Json [malformed_item]))
      initial_world))) = None \<and>
   history (st initial_world) = [] \<and>
   history (st (snd (fetchHistory sample_config (Responds 200 (Json [malformed_item]))
      initial_world))) =
     [\<lparr>id_r = Some (of_ascii ''a2''), text_r = of_ascii ''meh'', sentiment_r = Neutral,
       score_r = Finite 0, timestamp_r = Invalid_Date\<rparr>]"
  by (simp add: fetchHistory_Json response_ok_def map_item_def new_Date_def sample_config_def
      sample_Date_parse_def malformed_item_def initial_world_def initial_state_def of_ascii_def)

text \<open>
  Claim C6, as the code has it. The only history request the component sends asks for
  \<^verbatim>\<open>limit=10\<close>, and \<^verbatim>\<open>history\<close> is stored as the service returns it, without a cut. So
  as long as every array the service returns has at most ten items, \<^verbatim>\<open>history\<close> has at
  most ten entries in every state of every run: the state at the end and the states shown
  while a request is in flight.
\<close>

theorem history_capped_within_limit:
  assumes "within_limit answer" and "list_all event_within_limit events"
  shows "capped (run cfg answer events) \<and>
    list_all (known_request cfg) (requests (run cfg answer events))"
proof -
  have "capped initial_world" and "list_all (known_request cfg) (requests initial_world)"
    by (simp_all add: capped_def initial_world_def initial_state_def)
  then have "capped (mount cfg answer)"
    and "list_all (known_request cfg) (requests (mount cfg answer))"
    using assms(1) by (simp_all add: mount_def fetchHistory_capped fetchHistory_known)
  then show ?thesis
    using assms(2) by (simp add: run_def foldl_step_capped foldl_step_known)
qed

theorem history_capped_within_limit_witness:
  "capped (run sample_config (Responds 200 (Json (replicate 10 sample_item)))
     [Edit (of_ascii ''fine''),
      Analyze 0 (Responds 200 (Json sample_data)) (Responds 200 (Json [sample_item])),
      Analyze 1 (Responds 500 (Json sample_data)) (Rejects NonError)]) \<and>
   length (history (st (run sample_config (Responds 200 (Json (replicate 10 sample_item)))
     [Edit (of_ascii ''fine''),
      Analyze 0 (Responds 200 (Json sample_data)) (Responds 200 (Json [sample_item])),
      Analyze 1 (Responds 500 (Json sample_data)) (Rejects NonError)]))) \<le> 10"
proof -
  have a: "within_limit (Responds 200 (Json (replicate 10 sample_item)))"
    by (simp add: within_limit_def)
  have b: "list_all event_within_limit
     [Edit (of_ascii ''fine''),
      Analyze 0 (Responds 200 (Json sample_data)) (Responds 200 (Json [sample_item])),
      Analyze 1 (Responds 500 (Json sample_data)) (Rejects NonError)]"
    by (simp add: within_limit_def)
  show ?thesis
    using history_capped_within_limit [OF a b, of sample_config]
    by (simp add: capped_def)
qed

text \<open>
  A service that answers the request of the mount with eleven items leaves eleven entries
  in \<^verbatim>\<open>history\<close>.
\<close>

theorem history_cap_counterexample:
  "length (history (st (run sample_config (Responds 200 (Json (replicate 11 sample_item))) []))) = 11 \<and>
   \<not> length (history (st (run sample_config (Responds 200 (Json (replicate 11 sample_item))) []))) \<le> 10"
  by (simp add: run_def mount_def fetchHistory_Json response_ok_def)

section \<open>Properties of the pure helpers\<close>

lemma js_less_neg_lit_0_1: "js_less score (js_neg lit_0_1) \<Longrightarrow> \<not> js_greater score lit_0_1"
  by (cases score) (auto simp: js_greater_def lit_0_1_def)

lemma lit_0_1_above_tenth: "js_less (Finite (1 / 10)) lit_0_1"
  by (simp add: lit_0_1_def)

text \<open>
  The value of \<open>lit_0_1\<close> is nearer to one tenth than its two neighbours in binary64,
  which differ from it by one unit in the last place, \<open>1 / 2 ^ 56\<close>.
\<close>

lemma lit_0_1_nearest:
  "\<bar>7205759403792794 / 2 ^ 56 - 1 / 10\<bar> < \<bar>7205759403792793 / 2 ^ 56 - 1 / (10::rat)\<bar>"
  "\<bar>7205759403792794 / 2 ^ 56 - 1 / 10\<bar> < \<bar>7205759403792795 / 2 ^ 56 - 1 / (10::rat)\<bar>"
  by simp_all

text \<open>
  Claim C7. For every score, \<^verbatim>\<open>getScoreColor\<close> returns the positive class exactly when
  \<^verbatim>\<open>score > 0.1\<close>, the negative class exactly when \<^verbatim>\<open>score < -0.1\<close>, and the neutral
  class in every other case (NaN included). The score \<^verbatim>\<open>0.1\<close> itself is neutral, and so
  is \<^verbatim>\<open>-0.1\<close>. The class depends on the score only: changing the sentiment of a record
  does not change the class of its score.
\<close>

theorem getScoreColor_thresholds:
  "(getScoreColor score = ''text-positive'' \<longleftrightarrow> js_greater score lit_0_1) \<and>
   (getScoreColor score = ''text-negative'' \<longleftrightarrow> js_less score (js_neg lit_0_1)) \<and>
   (getScoreColor score = ''text-neutral'' \<longleftrightarrow>
      \<not> js_greater score lit_0_1 \<and> \<not> js_less score (js_neg lit_0_1)) \<and>
   getScoreColor lit_0_1 = ''text-neutral'' \<and>
   getScoreColor (js_neg lit_0_1) = ''text-neutral'' \<and>
   getScoreColor (score_r (r\<lparr>sentiment_r := label\<rparr>)) = getScoreColor (score_r r)"
  using js_less_neg_lit_0_1 [of score]
  by (auto simp: getScoreColor_def js_greater_def lit_0_1_def)

theorem getScoreColor_thresholds_witness:
  "getScoreColor (Finite (1000001 / 10000000)) = ''text-positive'' \<and>
   getScoreColor (Finite (- 1000001 / 10000000)) = ''text-negative'' \<and>
   getScoreColor (Finite (1 / 10)) = ''text-neutral'' \<and>
   getScoreColor (Finite (- 1 / 10)) = ''text-neutral'' \<and>
   getScoreColor NaN = ''text-neutral'' \<and>
   getScoreColor (score_r \<lparr>id_r = None, text_r = [], sentiment_r = Negative,
      score_r = Finite (4 / 5), timestamp_r = Date 0\<rparr>) = ''text-positive''"
  using getScoreColor_thresholds [of "Finite (1000001 / 10000000)"]
    getScoreColor_thresholds [of "Finite (- 1000001 / 10000000)"]
    getScoreColor_thresholds [of "Finite (1 / 10)"]
    getScoreColor_thresholds [of "Finite (- 1 / 10)"]
    getScoreColor_thresholds [of NaN]
    getScoreColor_thresholds [of "Finite (4 / 5)"]
  by (simp add: js_greater_def lit_0_1_def)

text \<open>
  Claim C8. For every string and every maximal length, \<^verbatim>\<open>truncateText\<close> returns the
  string unchanged when its length is at most the maximal length, and otherwise its first
  \<^verbatim>\<open>maxLength\<close> code units followed by the marker \<^verbatim>\<open>...\<close>. The maximal length is 60
  when it is left out: a string of 61 code units gives its first 60 and the marker, a
  string of 60 code units comes back unchanged.
\<close>

theorem truncateText_spec:
  "(length s \<le> m \<longrightarrow> truncateText s (Some m) = s) \<and>
   (m < length s \<longrightarrow>
      truncateText s (Some m) = take m s @ of_ascii ''...'' \<and> length (take m s) = m) \<and>
   truncateText s None = truncateText s (Some 60) \<and>
   (length s = 61 \<longrightarrow>
      truncateText s None = take 60 s @ of_ascii ''...'' \<and> length (take 60 s) = 60) \<and>
   (length s = 60 \<longrightarrow> truncateText s None = s)"
  by (simp add: truncateText_def)

theorem truncateText_spec_witness:
  "truncateText (replicate 61 0x61) None = replicate 60 0x61 @ of_ascii ''...'' \<and>
   truncateText (replicate 60 0x61) None = replicate 60 0x61 \<and>
   truncateText (of_ascii ''abcdef'') (Some 4) = of_ascii ''abcd...'' \<and>
   truncateText (of_ascii ''abcd'') (Some 4) = of_ascii ''abcd''"
  using truncateText_spec [of "replicate 61 0x61" 60] truncateText_spec [of "replicate 60 0x61" 60]
    truncateText_spec [of "of_ascii ''abcdef''" 4] truncateText_spec [of "of_ascii ''abcd''" 4]
  by (simp add: of_ascii_def)

section \<open>Failures and the error slot\<close>

text \<open>
  Claim C9. Whatever the network answers, \<^verbatim>\<open>fetchHistory\<close> and \<^verbatim>\<open>handleAnalyze\<close> return
  normally: no exception leaves them. \<^verbatim>\<open>fetchHistory\<close> ends with \<^verbatim>\<open>isLoadingHistory\<close>
  false and with \<^verbatim>\<open>errorMessage\<close> holding the message of the exception its answer
  raised, if it raised one. \<^verbatim>\<open>handleAnalyze\<close>, once past the guard on the text, ends with
  \<^verbatim>\<open>isAnalyzing\<close> false and with \<^verbatim>\<open>errorMessage\<close> holding the message of the exception
  of the analyze answer, or else that of the history answer, if there is one.
\<close>

theorem failures_become_errorMessage:
  "fst (fetchHistory cfg history_answer w) = Inr () \<and>
   \<not> isLoadingHistory (st (snd (fetchHistory cfg history_answer w))) \<and>
   errorMessage (st (snd (fetchHistory cfg history_answer w))) =
     map_option (\<lambda>e. error_message e (of_ascii ''Failed to load history''))
       (raised (of_ascii ''Failed to load history'') history_answer) \<and>
   fst (handleAnalyze cfg now answer history_answer w) = Inr () \<and>
   (trim (text_s (st w)) \<noteq> [] \<longrightarrow>
      \<not> isAnalyzing (st (snd (handleAnalyze cfg now answer history_answer w))) \<and>
      errorMessage (st (snd (handleAnalyze cfg now answer history_answer w))) =
        (case raised (of_ascii ''Analysis failed. Please try again.'') answer of
           Some e \<Rightarrow> Some (error_message e (of_ascii ''Analysis failed.''))
         | None \<Rightarrow> map_option (\<lambda>e. error_message e (of_ascii ''Failed to load history''))
             (raised (of_ascii ''Failed to load history'') history_answer)))"
  using fetchHistory_returns [of cfg history_answer w] fetchHistory_frame [of cfg history_answer w]
    fetchHistory_errorMessage [of cfg history_answer w]
    handleAnalyze_returns [of cfg now answer history_answer w]
    handleAnalyze_outcome [of w cfg now answer history_answer]
  by simp

theorem failures_become_errorMessage_witness:
  "fst (fetchHistory sample_config (Responds 200 (JsonRejects NonError)) typed_world) = Inr () \<and>
   \<not> isLoadingHistory (st (snd (fetchHistory sample_config (Responds 200 (JsonRejects NonError))
      typed_world))) \<and>
   errorMessage (st (snd (fetchHistory sample_config (Responds 200 (JsonRejects NonError))
      typed_world))) = Some (of_ascii ''Failed to load history'') \<and>
   fst (handleAnalyze sample_config 0 (Rejects NonError) (Responds 200 (JsonRejects NonError))
      typed_world) = Inr () \<and>
   \<not> isAnalyzing (st (snd (handleAnalyze sample_config 0 (Rejects NonError)
      (Responds 200 (JsonRejects NonError)) typed_world))) \<and>
   errorMessage (st (snd (handleAnalyze sample_config 0 (Rejects NonError)
      (Responds 200 (JsonRejects NonError)) typed_world))) = Some (of_ascii ''Analysis failed.'')"
proof -
  have nonblank: "trim (text_s (st typed_world)) \<noteq> []"
    by (simp add: typed_world_def trim_def is_white_space_def of_ascii_def)
  show ?thesis
    using failures_become_errorMessage [of sample_config "Responds 200 (JsonRejects NonError)"
        typed_world 0 "Rejects NonError"] nonblank
    by (simp add: raised_def response_ok_def error_message_def)
qed

text \<open>
  Claim C10. Every run of \<^verbatim>\<open>fetchHistory\<close> clears \<^verbatim>\<open>errorMessage\<close> before it sends its
  request: in each state shown while the request is in flight \<^verbatim>\<open>isLoadingHistory\<close> is
  true and \<^verbatim>\<open>errorMessage\<close> is empty, whatever it held before and whatever the answer
  will be. This holds as well for the refresh that \<^verbatim>\<open>handleAnalyze\<close> starts after a
  successful analyze request. When the answer fails, the message of its exception is in
  \<^verbatim>\<open>errorMessage\<close> at the end.
\<close>

theorem fetchHistory_clears_errorMessage_first:
  "set (shown_between w (snd (fetchHistory cfg history_answer w))) = {loading (st w)} \<and>
   isLoadingHistory (loading (st w)) \<and> errorMessage (loading (st w)) = None \<and>
   (raised (of_ascii ''Failed to load history'') history_answer = Some e \<longrightarrow>
      errorMessage (st (snd (fetchHistory cfg history_answer w))) =
        Some (error_message e (of_ascii ''Failed to load history''))) \<and>
   (trim (text_s (st w)) \<noteq> [] \<and> response_ok status \<longrightarrow>
      set (shown_between (result_set cfg now data w)
             (snd (handleAnalyze cfg now (Responds status (Json data)) history_answer w))) =
        {loading (st (result_set cfg now data w))})"
proof -
  have "set (shown_between (result_set cfg now data w)
             (snd (handleAnalyze cfg now (Responds status (Json data)) history_answer w))) =
        {loading (st (result_set cfg now data w))}"
    if "trim (text_s (st w)) \<noteq> []" and "response_ok status"
    using that fetchHistory_shown [of "result_set cfg now data w" cfg history_answer]
    by (simp add: handleAnalyze_Json shown_between_def)
  then show ?thesis
    using fetchHistory_shown [of w cfg history_answer]
      fetchHistory_errorMessage [of cfg history_answer w]
    by (simp add: loading_def)
qed

theorem fetchHistory_clears_errorMessage_first_witness:
  "errorMessage (st stale_world) = Some (of_ascii ''Analysis failed. Please try again.'') \<and>
   set (shown_between stale_world (snd (fetchHistory sample_config (Responds 503 (Json [])) stale_world)))
     = {(st stale_world)\<lparr>isLoadingHistory := True, errorMessage := None\<rparr>} \<and>
   errorMessage (st (snd (fetchHistory sample_config (Responds 503 (Json [])) stale_world))) =
     Some (of_ascii ''Failed to load history'') \<and>
   set (shown_between (result_set sample_config 0 sample_data stale_world)
          (snd (handleAnalyze sample_config 0 (Responds 200 (Json sample_data))
             (Responds 503 (Json [])) stale_world))) =
     {(st (result_set sample_config 0 sample_data stale_world))
        \<lparr>isLoadingHistory := True, errorMessage := None\<rparr>}"
proof -
  have nonblank: "trim (text_s (st stale_world)) \<noteq> []"
    by (simp add: stale_world_def trim_def is_white_space_def of_ascii_def)
  have ok: "response_ok 200"
    by (simp add: response_ok_def)
  have failing: "raised (of_ascii ''Failed to load history'')
      (Responds 503 (Json []) :: history_item list fetch_outcome) =
      Some (Error (of_ascii ''Failed to load history''))"
    by (simp add: raised_def response_ok_def)
  show ?thesis
    using fetchHistory_clears_errorMessage_first [of stale_world sample_config
        "Responds 503 (Json [])" "Error (of_ascii ''Failed to load history'')" 200 0 sample_data]
      nonblank ok failing
    by (simp add: loading_def error_message_def) (simp add: stale_world_def)
qed

end
